theory Spec2Isabelle
  imports Main
begin

section \<open>Runs of a tutorial: library calls, exceptions and the event log\<close>

text \<open>
  The repository holds two tutorials: the notebook
  \<^verbatim>\<open>Nested Versus Non-Nested Cross-Validation.ipynb\<close> and the published page
  \<^verbatim>\<open>scikit-learn/plot-cv-predict\<close> (Cross Validated Predictions). Both are
  straight-line Python scripts over scikit-learn, numpy and plotly. None of these libraries
  is part of the repository, so every library function is a parameter of the model (a
  field of the record \<open>library\<close> below) and the scripts are functions of it.

  A library call either returns a value or raises; the scripts have no \<^verbatim>\<open>try\<close>,
  so a run is a log of what happened together with either the exception that ended it
  (\<open>Inl\<close>) or the value it produced (\<open>Inr\<close>). The log records every call
  expression of the scripts, when it begins and when it returns or raises, and every
  creation, write and read of the three score arrays of the notebook.
\<close>

datatype py_exception = PyExc string

datatype event =
    Call string            \<comment> \<open>a function, method or constructor is called\<close>
  | Returned string        \<comment> \<open>the call in progress returns\<close>
  | Raised py_exception    \<comment> \<open>the call in progress raises\<close>
  | Alloc string           \<comment> \<open>the named score array is created\<close>
  | SetItem string nat     \<comment> \<open>\<^verbatim>\<open>name[i] = ...\<close>\<close>
  | Read string            \<comment> \<open>the named score array is passed to an operation\<close>

type_synonym 'a run = "event list \<times> (py_exception + 'a)"

definition ret :: "'a \<Rightarrow> 'a run" where
  "ret x = ([], Inr x)"

text \<open>Statement sequencing: what follows a statement that raised is not executed.\<close>

definition andthen :: "'a run \<Rightarrow> ('a \<Rightarrow> 'b run) \<Rightarrow> 'b run" where
  "andthen m f =
     (case m of
        (t, Inl e) \<Rightarrow> (t, Inl e)
      | (t, Inr a) \<Rightarrow> (case f a of (t', r) \<Rightarrow> (t @ t', r)))"

definition call :: "string \<Rightarrow> py_exception + 'a \<Rightarrow> 'a run" where
  "call name r =
     (case r of
        Inl e \<Rightarrow> ([Call name, Raised e], Inl e)
      | Inr v \<Rightarrow> ([Call name, Returned name], Inr v))"

definition read :: "string \<Rightarrow> 'a \<Rightarrow> 'a run" where
  "read name x = ([Read name], Inr x)"

text \<open>\<^verbatim>\<open>for i in ...: body\<close>, the loop state passed along.\<close>

fun for_each :: "('s \<Rightarrow> nat \<Rightarrow> 's run) \<Rightarrow> nat list \<Rightarrow> 's \<Rightarrow> 's run" where
  "for_each body [] s = ret s"
| "for_each body (i # is) s = andthen (body s i) (for_each body is)"

section \<open>Data of the scripts\<close>

text \<open>\<^verbatim>\<open>KFold(n_splits=..., shuffle=..., random_state=...)\<close>; \<open>None\<close> is the
  constructor's default for \<^verbatim>\<open>random_state\<close>.\<close>

record kfold =
  n_splits :: nat
  shuffle :: bool
  random_state :: "int option"

text \<open>\<^verbatim>\<open>SVC(kernel=...)\<close> and \<^verbatim>\<open>linear_model.LinearRegression()\<close>.\<close>

record svc =
  kernel :: string

datatype linear_regression = LinearRegression

text \<open>Values of a parameter grid: an integer, or a float literal kept as the source
  writes it.\<close>

datatype param_value = PyInt int | PyFloat string

type_synonym param_grid_t = "(string \<times> param_value list) list"

text \<open>\<^verbatim>\<open>GridSearchCV(estimator=..., param_grid=..., cv=...)\<close>.\<close>

record grid_search_cv =
  estimator :: svc
  param_grid :: param_grid_t
  cv :: kfold

text \<open>Plotly traces and figures, as the containers of what the scripts put in them.
  Styling dictionaries are flattened to key/value pairs.\<close>

datatype 'f trace =
    Scatter "'f list option" "'f list" "string option" "(string \<times> string) list" "string option"
      \<comment> \<open>x, y, mode, marker and line styling, name\<close>
  | Bar "nat list" "'f list" bool
      \<comment> \<open>x, y, showlegend\<close>

record 'f figure =
  subplot_grid :: "(nat \<times> nat) option"
  traces :: "('f trace \<times> (nat \<times> nat) option) list"
  layout :: "(string \<times> string) list"

section \<open>The libraries, as parameters\<close>

text \<open>
  \<open>'x\<close> is a feature matrix, \<open>'y\<close> the iris target vector, \<open>'m\<close> the state a fitted
  \<^verbatim>\<open>GridSearchCV\<close> holds, \<open>'f\<close> a float. Floats are not interpreted: numpy's
  arithmetic on them is part of the library.

  \<^verbatim>\<open>clf.fit(X, y)\<close> changes \<^verbatim>\<open>clf\<close>: \<open>gs_fit\<close> returns the state the searcher
  holds afterwards, and \<^verbatim>\<open>clf.best_score_\<close> reads it. The calls are taken to leave
  their other arguments as they were (the data, the shared estimator \<^verbatim>\<open>svr\<close>, the
  splitters), as scikit-learn does by cloning the estimator it is given; so these are
  plain values and no store is needed. \<open>publish\<close> stands for
  \<^verbatim>\<open>publisher.publish\<close> with the constant arguments of the notebook, the
  \<^verbatim>\<open>nat\<close> of \<open>cross_val_predict\<close> is its \<^verbatim>\<open>cv\<close>, and the
  \<^verbatim>\<open>string option\<close> of \<open>iplot\<close> its \<^verbatim>\<open>filename\<close>.
\<close>

record ('x, 'y, 'm, 'f) library =
  load_iris :: "py_exception + 'x \<times> 'y"
  gs_fit :: "grid_search_cv \<Rightarrow> 'x \<Rightarrow> 'y \<Rightarrow> py_exception + 'm"
  best_score :: "'m \<Rightarrow> 'f"
  cross_val_score :: "grid_search_cv \<Rightarrow> 'm \<Rightarrow> 'x \<Rightarrow> 'y \<Rightarrow> kfold \<Rightarrow> py_exception + 'f list"
  np_zero :: "'f"
  ndarray_mean :: "'f list \<Rightarrow> 'f"
  ndarray_std :: "'f list \<Rightarrow> 'f"
  float_sub :: "'f \<Rightarrow> 'f \<Rightarrow> 'f"
  format_6f :: "'f \<Rightarrow> string"
  iplot :: "'f figure \<Rightarrow> string option \<Rightarrow> py_exception + string"
  publish :: "py_exception + unit"
  load_boston :: "py_exception + 'x \<times> 'f list"
  cross_val_predict :: "linear_regression \<Rightarrow> 'x \<Rightarrow> 'f list \<Rightarrow> nat \<Rightarrow> py_exception + 'f list"
  ndarray_min :: "'f list \<Rightarrow> py_exception + 'f"
  ndarray_max :: "'f list \<Rightarrow> py_exception + 'f"

section \<open>The notebook: nested versus non-nested cross-validation\<close>

definition NUM_TRIALS :: nat where
  "NUM_TRIALS = 30"

definition p_grid :: param_grid_t where
  "p_grid = [(''C'', [PyInt 1, PyInt 10, PyInt 100]),
             (''gamma'', [PyFloat ''.01'', PyFloat ''.1''])]"

text \<open>The combinations a parameter grid denotes: one value for each name.\<close>

fun grid_points :: "param_grid_t \<Rightarrow> (string \<times> param_value) list list" where
  "grid_points [] = [[]]"
| "grid_points ((name, vs) # g) =
     concat (map (\<lambda>v. map (\<lambda>pt. (name, v) # pt) (grid_points g)) vs)"

text \<open>\<^verbatim>\<open>np.zeros(n)\<close>, assigned to the named array.\<close>

definition zeros :: "('x, 'y, 'm, 'f) library \<Rightarrow> string \<Rightarrow> nat \<Rightarrow> 'f list run" where
  "zeros L name n =
     ([Call ''np.zeros'', Returned ''np.zeros'', Alloc name], Inr (replicate n (np_zero L)))"

text \<open>\<^verbatim>\<open>name[i] = v\<close> on an array: numpy raises IndexError out of range.\<close>

definition setitem :: "string \<Rightarrow> 'a list \<Rightarrow> nat \<Rightarrow> 'a \<Rightarrow> 'a list run" where
  "setitem name xs i v =
     (if i < length xs then ([SetItem name i], Inr (xs[i := v]))
      else ([Raised (PyExc ''IndexError'')], Inl (PyExc ''IndexError'')))"

text \<open>\<^verbatim>\<open>a - b\<close> on two one-dimensional arrays: elementwise, an operand of length one
  is broadcast, any other mismatch of lengths raises ValueError.\<close>

definition ndarray_sub ::
  "('x, 'y, 'm, 'f) library \<Rightarrow> 'f list \<Rightarrow> 'f list \<Rightarrow> py_exception + 'f list" where
  "ndarray_sub L a b =
     (if length a = length b then Inr (map2 (float_sub L) a b)
      else if length a = 1 then Inr (map (float_sub L (hd a)) b)
      else if length b = 1 then Inr (map (\<lambda>x. float_sub L x (hd b)) a)
      else Inl (PyExc ''ValueError''))"

text \<open>The two splitters of trial \<open>i\<close>.\<close>

definition inner_cv :: "nat \<Rightarrow> kfold" where
  "inner_cv i = \<lparr>n_splits = 4, shuffle = True, random_state = Some (int i)\<rparr>"

definition outer_cv :: "nat \<Rightarrow> kfold" where
  "outer_cv i = \<lparr>n_splits = 4, shuffle = True, random_state = Some (int i)\<rparr>"

text \<open>The body of the loop after the two splitters are bound: the state is the pair
  (\<^verbatim>\<open>non_nested_scores\<close>, \<^verbatim>\<open>nested_scores\<close>).\<close>

definition trial_body ::
  "('x, 'y, 'm, 'f) library \<Rightarrow> 'x \<Rightarrow> 'y \<Rightarrow> svc \<Rightarrow> kfold \<Rightarrow> kfold \<Rightarrow>
     'f list \<times> 'f list \<Rightarrow> nat \<Rightarrow> ('f list \<times> 'f list) run" where
  "trial_body L X_iris y_iris svr icv ocv s i =
     andthen (call ''GridSearchCV'' (Inr \<lparr>estimator = svr, param_grid = p_grid, cv = icv\<rparr>)) (\<lambda>clf.
     andthen (call ''GridSearchCV.fit'' (gs_fit L clf X_iris y_iris)) (\<lambda>fitted.
     andthen (setitem ''non_nested_scores'' (fst s) i (best_score L fitted)) (\<lambda>non_nested_scores.
     andthen (call ''cross_val_score'' (cross_val_score L clf fitted X_iris y_iris ocv)) (\<lambda>nested_score.
     andthen (call ''ndarray.mean'' (Inr (ndarray_mean L nested_score))) (\<lambda>mean.
     andthen (setitem ''nested_scores'' (snd s) i mean) (\<lambda>nested_scores.
     ret (non_nested_scores, nested_scores)))))))"

definition trial ::
  "('x, 'y, 'm, 'f) library \<Rightarrow> 'x \<Rightarrow> 'y \<Rightarrow> svc \<Rightarrow> 'f list \<times> 'f list \<Rightarrow> nat \<Rightarrow>
     ('f list \<times> 'f list) run" where
  "trial L X_iris y_iris svr s i =
     andthen (call ''KFold'' (Inr (inner_cv i))) (\<lambda>icv.
     andthen (call ''KFold'' (Inr (outer_cv i))) (\<lambda>ocv.
     trial_body L X_iris y_iris svr icv ocv s i))"

record 'f scores =
  non_nested_scores :: "'f list"
  nested_scores :: "'f list"
  score_difference :: "'f list"
  printed :: string

text \<open>The cell "Calculations".\<close>

definition calculations :: "('x, 'y, 'm, 'f) library \<Rightarrow> 'f scores run" where
  "calculations L =
     andthen (call ''load_iris'' (load_iris L)) (\<lambda>iris.
     andthen (call ''SVC'' (Inr \<lparr>kernel = ''rbf''\<rparr>)) (\<lambda>svr.
     andthen (zeros L ''non_nested_scores'' NUM_TRIALS) (\<lambda>nn0.
     andthen (zeros L ''nested_scores'' NUM_TRIALS) (\<lambda>ns0.
     andthen (call ''range'' (Inr [0..<NUM_TRIALS])) (\<lambda>trials.
     andthen (for_each (trial L (fst iris) (snd iris) svr) trials (nn0, ns0)) (\<lambda>s.
     andthen (read ''non_nested_scores'' (fst s)) (\<lambda>nn.
     andthen (read ''nested_scores'' (snd s)) (\<lambda>ns.
     andthen (call ''ndarray.__sub__'' (ndarray_sub L nn ns)) (\<lambda>d.
     andthen (([Alloc ''score_difference''], Inr d)) (\<lambda>sd.
     andthen (read ''score_difference'' sd) (\<lambda>sd1.
     andthen (call ''ndarray.mean'' (Inr (ndarray_mean L sd1))) (\<lambda>avg.
     andthen (read ''score_difference'' sd) (\<lambda>sd2.
     andthen (call ''ndarray.std'' (Inr (ndarray_std L sd2))) (\<lambda>dev.
     andthen (call ''str.format'' (Inr (''Average difference of '' @ format_6f L avg @
                '' with std. dev. of '' @ format_6f L dev @ ''.''))) (\<lambda>text.
     andthen (call ''print'' (Inr text)) (\<lambda>line.
     ret \<lparr>non_nested_scores = nn, nested_scores = ns, score_difference = sd,
          printed = line\<rparr>))))))))))))))))"

text \<open>The cell "Plot Results": the figure is built from the three arrays.\<close>

definition plot_results :: "'f scores \<Rightarrow> 'f figure run" where
  "plot_results r =
     andthen (call ''tools.make_subplots''
        (Inr \<lparr>subplot_grid = Some (2, 1), traces = [], layout = []\<rparr>)) (\<lambda>fig.
     andthen (read ''non_nested_scores'' (non_nested_scores r)) (\<lambda>y1.
     andthen (call ''dict'' (Inr [(''line.color'', ''red''), (''line.width'', ''2'')])) (\<lambda>line.
     andthen (call ''go.Scatter''
        (Inr (Scatter None y1 (Some ''lines'') line (Some ''Non-Nested CV'')))) (\<lambda>non_nested_scores_line.
     andthen (call ''fig.append_trace''
        (Inr (fig\<lparr>traces := traces fig @ [(non_nested_scores_line, Some (1, 1))]\<rparr>))) (\<lambda>fig.
     andthen (read ''nested_scores'' (nested_scores r)) (\<lambda>y2.
     andthen (call ''dict'' (Inr [(''line.color'', ''blue''), (''line.width'', ''2'')])) (\<lambda>line.
     andthen (call ''go.Scatter''
        (Inr (Scatter None y2 (Some ''lines'') line (Some ''Nested CV'')))) (\<lambda>nested_line.
     andthen (call ''fig.append_trace''
        (Inr (fig\<lparr>traces := traces fig @ [(nested_line, Some (1, 1))]\<rparr>))) (\<lambda>fig.
     andthen (call ''update''
        (Inr (fig\<lparr>layout := layout fig @ [(''yaxis1.title'', ''score'')]\<rparr>))) (\<lambda>fig.
     andthen (call ''update''
        (Inr (fig\<lparr>layout := layout fig @
           [(''title'', ''Non-Nested and Nested Cross Validation on Iris Dataset''),
            (''hovermode'', ''closest''), (''height'', ''700'')]\<rparr>))) (\<lambda>fig.
     andthen (call ''range'' (Inr [0..<NUM_TRIALS])) (\<lambda>xs.
     andthen (read ''score_difference'' (score_difference r)) (\<lambda>y3.
     andthen (call ''go.Bar'' (Inr (Bar xs y3 False))) (\<lambda>difference_plot.
     andthen (call ''fig.append_trace''
        (Inr (fig\<lparr>traces := traces fig @ [(difference_plot, Some (2, 1))]\<rparr>))) (\<lambda>fig.
     andthen (call ''update''
        (Inr (fig\<lparr>layout := layout fig @ [(''xaxis2.title'', ''Individual Trial #'')]\<rparr>))) (\<lambda>fig.
     andthen (call ''update''
        (Inr (fig\<lparr>layout := layout fig @ [(''yaxis2.title'', ''score difference'')]\<rparr>))) (\<lambda>fig.
     ret fig)))))))))))))))))"

text \<open>The last code cell: two style sheets are displayed, the publisher package is
  installed from its git URL by a shell escape (which does not raise), and the
  notebook is published.\<close>

definition publish_cell :: "('x, 'y, 'm, 'f) library \<Rightarrow> unit run" where
  "publish_cell L =
     andthen (call ''HTML'' (Inr ())) (\<lambda>link.
     andthen (call ''display'' (Inr link)) (\<lambda>_.
     andthen (call ''HTML'' (Inr ())) (\<lambda>link.
     andthen (call ''display'' (Inr link)) (\<lambda>_.
     andthen (call ''pip install'' (Inr ())) (\<lambda>_.
     call ''publisher.publish'' (publish L))))))"

text \<open>The code cells of the notebook, top to bottom, as its execution counts order them.
  The two import cells are taken to have succeeded (the first also shows
  \<^verbatim>\<open>sklearn.__version__\<close>), as is \<^verbatim>\<open>import publisher\<close> in the last
  cell; the markdown cells and the empty cell at the end do nothing.\<close>

definition notebook :: "('x, 'y, 'm, 'f) library \<Rightarrow> ('f scores \<times> 'f figure) run" where
  "notebook L =
     andthen (calculations L) (\<lambda>r.
     andthen (plot_results r) (\<lambda>fig.
     andthen (call ''py.iplot'' (iplot L fig None)) (\<lambda>shown.
     andthen (publish_cell L) (\<lambda>_.
     ret (r, fig)))))"

section \<open>The page: cross-validated predictions\<close>

text \<open>The three code cells of the published page, the import cell taken to have
  succeeded. \<^verbatim>\<open>y.min()\<close> and \<^verbatim>\<open>y.max()\<close> raise on an empty array.\<close>

definition cv_predict :: "('x, 'y, 'm, 'f) library \<Rightarrow> ('f list \<times> 'f figure) run" where
  "cv_predict L =
     andthen (call ''linear_model.LinearRegression'' (Inr LinearRegression)) (\<lambda>lr.
     andthen (call ''datasets.load_boston'' (load_boston L)) (\<lambda>boston.
     andthen (ret (snd boston)) (\<lambda>y.
     andthen (call ''cross_val_predict'' (cross_val_predict L lr (fst boston) y 10)) (\<lambda>predicted.
     andthen (call ''dict''
        (Inr [(''marker.line.width'', ''2''), (''marker.line.color'', ''rgb(0, 0, 0)'')])) (\<lambda>line.
     andthen (call ''dict''
        (Inr ([(''marker.size'', ''8''), (''marker.color'', ''rgb(0, 0, 255)'')] @ line))) (\<lambda>marker.
     andthen (call ''go.Scatter''
        (Inr (Scatter (Some y) predicted (Some ''markers'') marker None))) (\<lambda>trace1.
     andthen (call ''ndarray.min'' (ndarray_min L y)) (\<lambda>x_lo.
     andthen (call ''ndarray.max'' (ndarray_max L y)) (\<lambda>x_hi.
     andthen (call ''ndarray.min'' (ndarray_min L y)) (\<lambda>y_lo.
     andthen (call ''ndarray.max'' (ndarray_max L y)) (\<lambda>y_hi.
     andthen (call ''dict''
        (Inr [(''line.color'', ''rgb(0, 0, 0)''), (''line.width'', ''5''),
              (''line.dash'', ''dash'')])) (\<lambda>line.
     andthen (call ''go.Scatter''
        (Inr (Scatter (Some [x_lo, x_hi]) [y_lo, y_hi] None line None))) (\<lambda>trace2.
     andthen (call ''dict''
        (Inr [(''yaxis.range'', ''[-10,60]''), (''yaxis.zeroline'', ''False''),
              (''yaxis.title'', ''Predicted'')])) (\<lambda>yaxis.
     andthen (call ''dict'' (Inr [(''xaxis.title'', ''Measured'')])) (\<lambda>xaxis.
     andthen (call ''go.Layout''
        (Inr ([(''showlegend'', ''False'')] @ yaxis @ xaxis))) (\<lambda>lay.
     andthen (call ''go.Figure''
        (Inr \<lparr>subplot_grid = None, traces = [(trace1, None), (trace2, None)],
              layout = lay\<rparr>)) (\<lambda>fig.
     andthen (call ''py.iplot'' (iplot L fig (Some ''c-v-predict''))) (\<lambda>shown.
     ret (predicted, fig)))))))))))))))))))"

section \<open>Stand-ins for the libraries\<close>

text \<open>
  Concrete libraries on which the scripts can be evaluated: matrices and target vectors
  are numbers, floats are integers. \<open>demo_library\<close> never raises;
  \<open>failing_library\<close> raises ValueError from \<^verbatim>\<open>fit\<close> in the trial with
  \<^verbatim>\<open>random_state=2\<close>; \<open>rerun_library\<close> differs from \<open>demo_library\<close>
  exactly on splitters with \<^verbatim>\<open>random_state=None\<close>.
\<close>

definition demo_library :: "(nat, nat, int, int) library" where
  "demo_library =
     \<lparr>load_iris = Inr (150, 3),
      gs_fit = (\<lambda>gs X y. case random_state (cv gs) of
                  None \<Rightarrow> Inr 0 | Some s \<Rightarrow> Inr (90 + s mod 7)),
      best_score = (\<lambda>m. m),
      cross_val_score = (\<lambda>gs m X y k. case random_state k of
                  None \<Rightarrow> Inr (replicate (n_splits k) 0)
                | Some s \<Rightarrow> Inr (map (\<lambda>j. m - int j) [0..<n_splits k])),
      np_zero = 0,
      ndarray_mean = (\<lambda>xs. if xs = [] then 0 else sum_list xs div int (length xs)),
      ndarray_std = (\<lambda>xs. 0),
      float_sub = (\<lambda>a b. a - b),
      format_6f = (\<lambda>a. if a < 0 then ''-'' else ''+''),
      iplot = (\<lambda>fig filename. Inr ''iframe''),
      publish = Inr (),
      load_boston = Inr (506, [24, 21, 34]),
      cross_val_predict = (\<lambda>lr X y k. Inr (map (\<lambda>v. v + 1) y)),
      ndarray_min = (\<lambda>ys. if ys = [] then Inl (PyExc ''ValueError'') else Inr (fold min ys (hd ys))),
      ndarray_max = (\<lambda>ys. if ys = [] then Inl (PyExc ''ValueError'') else Inr (fold max ys (hd ys)))\<rparr>"

definition failing_library :: "(nat, nat, int, int) library" where
  "failing_library =
     demo_library\<lparr>gs_fit := (\<lambda>gs X y. if random_state (cv gs) = Some 2
                     then Inl (PyExc ''ValueError'') else gs_fit demo_library gs X y)\<rparr>"

definition rerun_library :: "(nat, nat, int, int) library" where
  "rerun_library =
     demo_library\<lparr>gs_fit := (\<lambda>gs X y. if random_state (cv gs) = None
                     then Inr 1 else gs_fit demo_library gs X y)\<rparr>"

text \<open>What the calculation cell computes on \<open>demo_library\<close>.\<close>

definition demo_scores :: "int scores" where
  "demo_scores =
     \<lparr>non_nested_scores =
        [90, 91, 92, 93, 94, 95, 96, 90, 91, 92, 93, 94, 95, 96, 90,
         91, 92, 93, 94, 95, 96, 90, 91, 92, 93, 94, 95, 96, 90, 91],
      nested_scores =
        [88, 89, 90, 91, 92, 93, 94, 88, 89, 90, 91, 92, 93, 94, 88,
         89, 90, 91, 92, 93, 94, 88, 89, 90, 91, 92, 93, 94, 88, 89],
      score_difference =
        [2, 2, 2, 2, 2, 2, 2, 2, 2, 2, 2, 2, 2, 2, 2,
         2, 2, 2, 2, 2, 2, 2, 2, 2, 2, 2, 2, 2, 2, 2],
      printed = ''Average difference of + with std. dev. of +.''\<rparr>"

section \<open>What a completed run logs\<close>

text \<open>The events of trial \<open>i\<close>, of the cells of the notebook and of the page, when no
  call raises. They are the scripts' statements read top to bottom; the lemmas below
  prove that a completed run logs exactly these.\<close>

text \<open>A call that returns.\<close>

definition completed :: "string \<Rightarrow> event list" where
  "completed name = [Call name, Returned name]"

definition body_events :: "nat \<Rightarrow> event list" where
  "body_events i =
     completed ''GridSearchCV'' @ completed ''GridSearchCV.fit'' @
     [SetItem ''non_nested_scores'' i] @
     completed ''cross_val_score'' @ completed ''ndarray.mean'' @
     [SetItem ''nested_scores'' i]"

definition trial_events :: "nat \<Rightarrow> event list" where
  "trial_events i = completed ''KFold'' @ completed ''KFold'' @ body_events i"

text \<open>The writes of trial \<open>i\<close> to the score arrays.\<close>

definition trial_writes :: "nat \<Rightarrow> event list" where
  "trial_writes i = [SetItem ''non_nested_scores'' i, SetItem ''nested_scores'' i]"

definition setup_events :: "event list" where
  "setup_events =
     completed ''load_iris'' @ completed ''SVC'' @
     completed ''np.zeros'' @ [Alloc ''non_nested_scores''] @
     completed ''np.zeros'' @ [Alloc ''nested_scores'']"

text \<open>The loop: its header calls \<^verbatim>\<open>range\<close> once, then the trials run in order.\<close>

definition loop_events :: "event list" where
  "loop_events = completed ''range'' @ concat (map trial_events [0..<NUM_TRIALS])"

definition report_events :: "event list" where
  "report_events =
     [Read ''non_nested_scores'', Read ''nested_scores''] @ completed ''ndarray.__sub__'' @
     [Alloc ''score_difference''] @
     [Read ''score_difference''] @ completed ''ndarray.mean'' @
     [Read ''score_difference''] @ completed ''ndarray.std'' @
     completed ''str.format'' @ completed ''print''"

definition calculation_events :: "event list" where
  "calculation_events = setup_events @ loop_events @ report_events"

definition plot_events :: "event list" where
  "plot_events =
     completed ''tools.make_subplots'' @
     [Read ''non_nested_scores''] @ completed ''dict'' @ completed ''go.Scatter'' @
     completed ''fig.append_trace'' @
     [Read ''nested_scores''] @ completed ''dict'' @ completed ''go.Scatter'' @
     completed ''fig.append_trace'' @
     completed ''update'' @ completed ''update'' @
     completed ''range'' @ [Read ''score_difference''] @ completed ''go.Bar'' @
     completed ''fig.append_trace'' @
     completed ''update'' @ completed ''update''"

definition publish_events :: "event list" where
  "publish_events =
     completed ''HTML'' @ completed ''display'' @ completed ''HTML'' @ completed ''display'' @
     completed ''pip install'' @ completed ''publisher.publish''"

definition notebook_events :: "event list" where
  "notebook_events =
     calculation_events @ plot_events @ completed ''py.iplot'' @ publish_events"

definition cv_predict_events :: "event list" where
  "cv_predict_events =
     completed ''linear_model.LinearRegression'' @ completed ''datasets.load_boston'' @
     completed ''cross_val_predict'' @
     completed ''dict'' @ completed ''dict'' @ completed ''go.Scatter'' @
     completed ''ndarray.min'' @ completed ''ndarray.max'' @
     completed ''ndarray.min'' @ completed ''ndarray.max'' @
     completed ''dict'' @ completed ''go.Scatter'' @
     completed ''dict'' @ completed ''dict'' @ completed ''go.Layout'' @ completed ''go.Figure'' @
     completed ''py.iplot''"

text \<open>What trial \<open>i\<close> stores when it completes: \<open>a\<close> in
  \<^verbatim>\<open>non_nested_scores[i]\<close> and \<open>b\<close> in \<^verbatim>\<open>nested_scores[i]\<close>.\<close>

definition trial_outcome ::
  "('x, 'y, 'm, 'f) library \<Rightarrow> 'x \<Rightarrow> 'y \<Rightarrow> svc \<Rightarrow> nat \<Rightarrow> 'f \<Rightarrow> 'f \<Rightarrow> bool" where
  "trial_outcome L X y svr i a b \<longleftrightarrow>
     (\<exists>fitted fold_scores.
        gs_fit L \<lparr>estimator = svr, param_grid = p_grid, cv = inner_cv i\<rparr> X y = Inr fitted \<and>
        cross_val_score L \<lparr>estimator = svr, param_grid = p_grid, cv = inner_cv i\<rparr> fitted X y
          (outer_cv i) = Inr fold_scores \<and>
        a = best_score L fitted \<and> b = ndarray_mean L fold_scores)"

section \<open>Classifying events\<close>

text \<open>What follows the first return of a function in a log.\<close>

fun after_return :: "string \<Rightarrow> event list \<Rightarrow> event list" where
  "after_return name [] = []"
| "after_return name (e # es) = (if e = Returned name then es else after_return name es)"

text \<open>
  A log is sequential when no call begins while another is in progress: every call is
  followed at once by its own return, or by the exception that ends the run; between
  calls only accesses to the arrays occur. Two calls that overlap, as those of two
  threads would, make a log that is not sequential.
\<close>

fun sequential :: "event list \<Rightarrow> bool" where
  "sequential [] = True"
| "sequential (Call name # Returned name' # es) = (name = name' \<and> sequential es)"
| "sequential (Call name # Raised e # es) = (es = [])"
| "sequential (Call name # es) = False"
| "sequential (Returned name # es) = False"
| "sequential (Raised e # es) = (es = [])"
| "sequential (Alloc a # es) = sequential es"
| "sequential (SetItem a i # es) = sequential es"
| "sequential (Read a # es) = sequential es"

fun is_raised :: "event \<Rightarrow> bool" where
  "is_raised (Raised e) = True"
| "is_raised _ = False"

text \<open>A run leaves its exception unhandled: when it ends with exception \<open>e\<close>, exactly one
  exception was raised, it was \<open>e\<close>, and it is the last thing that happened; when it ends
  with a value, nothing was raised.\<close>

definition unhandled :: "'a run \<Rightarrow> bool" where
  "unhandled m =
     (case snd m of
        Inl e \<Rightarrow> filter is_raised (fst m) = [Raised e] \<and> last (fst m) = Raised e
      | Inr v \<Rightarrow> filter is_raised (fst m) = [])"

text \<open>Accesses to the score arrays.\<close>

fun is_access :: "event \<Rightarrow> bool" where
  "is_access (Alloc a) = True"
| "is_access (SetItem a i) = True"
| "is_access (Read a) = True"
| "is_access _ = False"

text \<open>
  Calls whose effect leaves the Python process, read off the outputs the notebook
  records and the commands it runs: \<^verbatim>\<open>print\<close> writes the line shown under the
  calculation cell, \<^verbatim>\<open>py.iplot\<close> returns an iframe served by plot.ly,
  \<^verbatim>\<open>display\<close> emits the two style-sheet links, the shell escape
  \<^verbatim>\<open>! pip install git+https://github.com/plotly/publisher.git --upgrade\<close> clones
  a repository and installs a package, \<^verbatim>\<open>publisher.publish\<close> writes the published
  page. Of these, \<^verbatim>\<open>py.iplot\<close> and \<^verbatim>\<open>pip install\<close> go to the network.
\<close>

fun external_effect :: "event \<Rightarrow> bool" where
  "external_effect (Call name) =
     (name \<in> set [''print'', ''py.iplot'', ''display'', ''pip install'', ''publisher.publish''])"
| "external_effect _ = False"

fun network_call :: "event \<Rightarrow> bool" where
  "network_call (Call name) = (name \<in> set [''py.iplot'', ''pip install''])"
| "network_call _ = False"

section \<open>Two runs\<close>

text \<open>
  Two runs of a script may meet the libraries in different states (of the global random
  number generator, say), so a second run is a second library \<open>L2\<close>. The two agree on
  the data set, on numpy's arithmetic and on every search and scoring whose splitters carry
  an integer \<^verbatim>\<open>random_state\<close>; on splitters with \<^verbatim>\<open>random_state=None\<close>
  nothing is assumed.
\<close>

definition same_on_seeded ::
  "('x, 'y, 'm, 'f) library \<Rightarrow> ('x, 'y, 'm, 'f) library \<Rightarrow> bool" where
  "same_on_seeded L1 L2 \<longleftrightarrow>
     load_iris L1 = load_iris L2 \<and>
     (\<forall>gs X y. random_state (cv gs) \<noteq> None \<longrightarrow> gs_fit L1 gs X y = gs_fit L2 gs X y) \<and>
     (\<forall>gs m X y k. random_state (cv gs) \<noteq> None \<longrightarrow> random_state k \<noteq> None \<longrightarrow>
        cross_val_score L1 gs m X y k = cross_val_score L2 gs m X y k) \<and>
     best_score L1 = best_score L2 \<and> np_zero L1 = np_zero L2 \<and>
     ndarray_mean L1 = ndarray_mean L2 \<and> ndarray_std L1 = ndarray_std L2 \<and>
     float_sub L1 = float_sub L2 \<and> format_6f L1 = format_6f L2"

section \<open>What the libraries are relied on for\<close>

text \<open>\<^verbatim>\<open>cross_val_score\<close> returns one score for each split of the splitter it is given.
  The notebook cannot enforce this; where a statement depends on it, it is assumed
  explicitly.\<close>

definition one_score_per_split :: "('x, 'y, 'm, 'f) library \<Rightarrow> bool" where
  "one_score_per_split L \<longleftrightarrow>
     (\<forall>clf fitted X y k fold_scores.
        cross_val_score L clf fitted X y k = Inr fold_scores \<longrightarrow>
        length fold_scores = n_splits k)"

section \<open>Sequencing, calls and the loop\<close>

lemma andthen_Inr: "andthen (t, Inr a) f = (t @ fst (f a), snd (f a))"
  by (simp add: andthen_def split: prod.splits)

lemma snd_andthen_Inr:
  "snd (andthen m f) = Inr b \<longleftrightarrow> (\<exists>a. snd m = Inr a \<and> snd (f a) = Inr b)"
  by (cases m; cases "snd m") (auto simp: andthen_def split: prod.splits sum.splits)

lemma fst_andthen_Inr:
  "snd m = Inr a \<Longrightarrow> fst (andthen m f) = fst m @ fst (f a)"
  by (cases m) (auto simp: andthen_def split: prod.splits sum.splits)

lemma snd_call: "snd (call n r) = r"
  by (simp add: call_def split: sum.splits)

lemma fst_call_Inr: "r = Inr v \<Longrightarrow> fst (call n r) = completed n"
  by (simp add: call_def completed_def)

lemma call_Inr_eq: "call n (Inr v) = (completed n, Inr v)"
  by (simp add: call_def completed_def)

lemma snd_setitem_Inr:
  "snd (setitem name xs i v) = Inr ys \<longleftrightarrow> i < length xs \<and> ys = xs[i := v]"
  by (auto simp: setitem_def)

lemma fst_setitem_Inr:
  "i < length xs \<Longrightarrow> fst (setitem name xs i v) = [SetItem name i]"
  by (simp add: setitem_def)

lemma trial_body_Inr:
  "snd (trial_body L X y svr icv ocv s i) = Inr s' \<longleftrightarrow>
     (\<exists>fitted fold_scores.
        gs_fit L \<lparr>estimator = svr, param_grid = p_grid, cv = icv\<rparr> X y = Inr fitted \<and>
        i < length (fst s) \<and>
        cross_val_score L \<lparr>estimator = svr, param_grid = p_grid, cv = icv\<rparr> fitted X y ocv
          = Inr fold_scores \<and>
        i < length (snd s) \<and>
        s' = ((fst s)[i := best_score L fitted], (snd s)[i := ndarray_mean L fold_scores]))"
  unfolding trial_body_def
  by (simp add: snd_andthen_Inr snd_call snd_setitem_Inr ret_def) blast

lemma trial_body_events:
  assumes "snd (trial_body L X y svr icv ocv s i) = Inr s'"
  shows "fst (trial_body L X y svr icv ocv s i) = body_events i"
  using assms unfolding trial_body_def
  by (auto simp: snd_andthen_Inr snd_call snd_setitem_Inr fst_andthen_Inr fst_call_Inr
      fst_setitem_Inr ret_def body_events_def)

lemma trial_Inr:
  "snd (trial L X y svr s i) = Inr s' \<longleftrightarrow>
     snd (trial_body L X y svr (inner_cv i) (outer_cv i) s i) = Inr s'"
  unfolding trial_def by (simp add: snd_andthen_Inr snd_call)

lemma trial_events:
  assumes "snd (trial L X y svr s i) = Inr s'"
  shows "fst (trial L X y svr s i) = trial_events i"
proof -
  have b: "snd (trial_body L X y svr (inner_cv i) (outer_cv i) s i) = Inr s'"
    using assms by (simp add: trial_Inr)
  show ?thesis
    unfolding trial_def
    by (simp add: fst_andthen_Inr [where a = "inner_cv i"] fst_andthen_Inr [where a = "outer_cv i"]
        snd_call fst_call_Inr trial_body_events [OF b] trial_events_def)
qed

lemma trial_step:
  assumes "snd (trial L X y svr s i) = Inr s'"
  shows "i < length (fst s) \<and> i < length (snd s) \<and>
         (\<exists>a b. trial_outcome L X y svr i a b \<and> s' = ((fst s)[i := a], (snd s)[i := b]))"
  using assms unfolding trial_Inr trial_body_Inr trial_outcome_def by blast

lemma for_each_trial:
  assumes "snd (for_each (trial L X y svr) js s) = Inr s'" and "distinct js"
  shows "length (fst s') = length (fst s) \<and> length (snd s') = length (snd s) \<and>
         fst (for_each (trial L X y svr) js s) = concat (map trial_events js) \<and>
         (\<forall>i \<in> set js. i < length (fst s) \<and> i < length (snd s) \<and>
            trial_outcome L X y svr i (fst s' ! i) (snd s' ! i)) \<and>
         (\<forall>j. j \<notin> set js \<longrightarrow> fst s' ! j = fst s ! j \<and> snd s' ! j = snd s ! j)"
  using assms
proof (induction js arbitrary: s)
  case Nil
  then show ?case by (simp add: ret_def)
next
  case (Cons i js)
  from Cons.prems(1) obtain s1 where
    s1: "snd (trial L X y svr s i) = Inr s1" and
    rest: "snd (for_each (trial L X y svr) js s1) = Inr s'"
    by (auto simp: snd_andthen_Inr)
  from trial_step [OF s1] obtain a b where
    i: "i < length (fst s)" "i < length (snd s)" and
    ab: "trial_outcome L X y svr i a b" and
    s1_eq: "s1 = ((fst s)[i := a], (snd s)[i := b])"
    by blast
  from Cons.prems(2) have d: "distinct js" and notin: "i \<notin> set js" by simp_all
  note ih = Cons.IH [OF rest d]
  have len: "length (fst s') = length (fst s)" "length (snd s') = length (snd s)"
    using ih s1_eq by simp_all
  have ev: "fst (for_each (trial L X y svr) (i # js) s) = concat (map trial_events (i # js))"
    using ih by (simp add: fst_andthen_Inr [OF s1] trial_events [OF s1])
  have at_i: "fst s' ! i = a" "snd s' ! i = b"
    using ih notin i s1_eq by simp_all
  have inside: "\<forall>k \<in> set (i # js). k < length (fst s) \<and> k < length (snd s) \<and>
      trial_outcome L X y svr k (fst s' ! k) (snd s' ! k)"
    using ih i ab at_i s1_eq by auto
  have outside: "\<forall>j. j \<notin> set (i # js) \<longrightarrow> fst s' ! j = fst s ! j \<and> snd s' ! j = snd s ! j"
    using ih s1_eq by auto
  show ?case using len ev inside outside by blast
qed

lemma zeros_simps:
  "snd (zeros L name n) = Inr (replicate n (np_zero L))"
  "fst (zeros L name n) = completed ''np.zeros'' @ [Alloc name]"
  by (simp_all add: zeros_def completed_def)

lemma read_simps: "snd (read name x) = Inr x" "fst (read name x) = [Read name]"
  by (simp_all add: read_def)

lemma calculations_Inr:
  assumes "snd (calculations L) = Inr r"
  shows "\<exists>X y. load_iris L = Inr (X, y) \<and>
           length (non_nested_scores r) = NUM_TRIALS \<and>
           length (nested_scores r) = NUM_TRIALS \<and>
           (\<forall>i < NUM_TRIALS. trial_outcome L X y \<lparr>kernel = ''rbf''\<rparr> i
              (non_nested_scores r ! i) (nested_scores r ! i)) \<and>
           score_difference r = map2 (float_sub L) (non_nested_scores r) (nested_scores r) \<and>
           printed r = ''Average difference of '' @
              format_6f L (ndarray_mean L (score_difference r)) @ '' with std. dev. of '' @
              format_6f L (ndarray_std L (score_difference r)) @ ''.'' \<and>
           fst (calculations L) = calculation_events"
proof -
  from assms obtain iris s d where
    iris: "load_iris L = Inr iris" and
    loop: "snd (for_each (trial L (fst iris) (snd iris) \<lparr>kernel = ''rbf''\<rparr>) [0..<NUM_TRIALS]
             (replicate NUM_TRIALS (np_zero L), replicate NUM_TRIALS (np_zero L))) = Inr s" and
    sub: "ndarray_sub L (fst s) (snd s) = Inr d" and
    r: "r = \<lparr>non_nested_scores = fst s, nested_scores = snd s, score_difference = d,
             printed = ''Average difference of '' @ format_6f L (ndarray_mean L d) @
               '' with std. dev. of '' @ format_6f L (ndarray_std L d) @ ''.''\<rparr>"
    unfolding calculations_def
    by (auto simp: snd_andthen_Inr snd_call zeros_simps read_simps ret_def)
  note fe = for_each_trial [OF loop distinct_upt]
  have len: "length (fst s) = NUM_TRIALS" "length (snd s) = NUM_TRIALS"
    using fe by simp_all
  have d: "d = map2 (float_sub L) (fst s) (snd s)"
    using sub len by (simp add: ndarray_sub_def)
  have out: "\<forall>i < NUM_TRIALS. trial_outcome L (fst iris) (snd iris) \<lparr>kernel = ''rbf''\<rparr> i
      (fst s ! i) (snd s ! i)"
    using fe by simp
  have ev: "fst (calculations L) = calculation_events"
    unfolding calculations_def calculation_events_def loop_events_def setup_events_def
      report_events_def
    using iris loop sub fe
    by (simp add: fst_andthen_Inr [where a = iris] snd_call fst_call_Inr zeros_simps read_simps
        fst_andthen_Inr [where a = "[0..<NUM_TRIALS]"]
        fst_andthen_Inr [where a = "\<lparr>kernel = ''rbf''\<rparr>"]
        fst_andthen_Inr [where a = "replicate NUM_TRIALS (np_zero L)"]
        fst_andthen_Inr [where a = s] fst_andthen_Inr [where a = "fst s"]
        fst_andthen_Inr [where a = "snd s"] fst_andthen_Inr [where a = d]
        fst_andthen_Inr [where a = "ndarray_mean L d"] fst_andthen_Inr [where a = "ndarray_std L d"]
        fst_andthen_Inr [where a = "''Average difference of '' @ format_6f L (ndarray_mean L d) @
               '' with std. dev. of '' @ format_6f L (ndarray_std L d) @ ''.''"]
        ret_def)
  have "load_iris L = Inr (fst iris, snd iris)" using iris by simp
  then show ?thesis using len out d r ev by (intro exI [of _ "fst iris"] exI [of _ "snd iris"]) simp
qed

lemma plot_results_eq:
  "\<exists>fig. plot_results r = (plot_events, Inr fig)"
  unfolding plot_results_def plot_events_def
  by (simp add: call_Inr_eq read_def andthen_Inr ret_def)

lemma publish_cell_Inr:
  "snd (publish_cell L) = Inr u \<Longrightarrow> fst (publish_cell L) = publish_events"
  unfolding publish_cell_def publish_events_def
  by (cases "publish L") (simp_all add: call_def andthen_Inr completed_def)

lemma notebook_Inr:
  assumes "snd (notebook L) = Inr v"
  shows "snd (calculations L) = Inr (fst v) \<and> fst (notebook L) = notebook_events"
proof -
  from assms obtain r fig shown u where
    r: "snd (calculations L) = Inr r" and
    fig: "snd (plot_results r) = Inr fig" and
    shown: "iplot L fig None = Inr shown" and
    u: "snd (publish_cell L) = Inr u" and
    v: "v = (r, fig)"
    unfolding notebook_def by (auto simp: snd_andthen_Inr snd_call ret_def)
  have pe: "fst (plot_results r) = plot_events"
    using plot_results_eq [of r] by auto
  have ce: "fst (calculations L) = calculation_events"
    using calculations_Inr [OF r] by blast
  have "fst (notebook L) = notebook_events"
    unfolding notebook_def notebook_events_def
    using ce pe
    by (simp add: fst_andthen_Inr [OF r] fst_andthen_Inr [OF fig] fst_andthen_Inr [OF u]
        fst_andthen_Inr [where a = shown] snd_call fst_call_Inr shown
        publish_cell_Inr [OF u] ret_def)
  then show ?thesis using r v by simp
qed

lemma fst_andthen:
  "fst (andthen m f) = fst m @ (case snd m of Inl e \<Rightarrow> [] | Inr a \<Rightarrow> fst (f a))"
  by (cases m; cases "snd m") (auto simp: andthen_def split: prod.splits)

lemma fst_call:
  "fst (call n r) = Call n # (case r of Inl e \<Rightarrow> [Raised e] | Inr v \<Rightarrow> [Returned n])"
  by (simp add: call_def split: sum.splits)

lemma cv_predict_Inr:
  assumes "snd (cv_predict L) = Inr v"
  shows "fst (cv_predict L) = cv_predict_events"
  using assms unfolding cv_predict_def cv_predict_events_def completed_def
  by (auto simp: snd_andthen_Inr fst_andthen snd_call fst_call ret_def)

lemma cv_predict_result:
  assumes "snd (cv_predict L) = Inr v"
  shows "\<exists>X y. load_boston L = Inr (X, y) \<and> cross_val_predict L LinearRegression X y 10 = Inr (fst v)"
  using assms unfolding cv_predict_def 
  by (auto simp: snd_andthen_Inr snd_call ret_def)

section \<open>Exceptions are never handled\<close>

lemma unhandled_pure: "filter is_raised t = [] \<Longrightarrow> unhandled (t, Inr v)"
  by (simp add: unhandled_def)

lemma unhandled_ret: "unhandled (ret x)"
  by (simp add: unhandled_def ret_def)

lemma unhandled_call: "unhandled (call n r)"
  by (simp add: unhandled_def call_def split: sum.splits)

lemma unhandled_read: "unhandled (read n x)"
  by (simp add: unhandled_def read_def)

lemma unhandled_zeros: "unhandled (zeros L n k)"
  by (simp add: unhandled_def zeros_def)

lemma unhandled_setitem: "unhandled (setitem n xs i v)"
  by (simp add: unhandled_def setitem_def)

lemma unhandled_andthen:
  assumes "unhandled m" and "\<And>a. unhandled (f a)"
  shows "unhandled (andthen m f)"
proof (cases m)
  case (Pair t r)
  show ?thesis
  proof (cases r)
    case (Inl e)
    with Pair assms(1) show ?thesis by (simp add: andthen_def unhandled_def)
  next
    case (Inr a)
    obtain t' r' where fa: "f a = (t', r')" by (cases "f a")
    have m: "filter is_raised t = []" using assms(1) Pair Inr by (simp add: unhandled_def)
    have u: "unhandled (t', r')" using assms(2) [of a] fa by simp
    have eq: "andthen m f = (t @ t', r')" using Pair Inr fa by (simp add: andthen_def)
    show ?thesis
    proof (cases r')
      case (Inl e)
      with u have "filter is_raised t' = [Raised e]" "last t' = Raised e"
        by (simp_all add: unhandled_def)
      moreover then have "t' \<noteq> []" by auto
      ultimately show ?thesis using m eq Inl by (simp add: unhandled_def)
    next
      case (Inr b)
      with u m eq show ?thesis by (simp add: unhandled_def)
    qed
  qed
qed

lemma unhandled_Raised:
  assumes "unhandled m" and "Raised e \<in> set (fst m)"
  shows "snd m = Inl e \<and> last (fst m) = Raised e"
proof (cases "snd m")
  case (Inl e')
  with assms(1) have f: "filter is_raised (fst m) = [Raised e']" and l: "last (fst m) = Raised e'"
    by (simp_all add: unhandled_def)
  from assms(2) have "Raised e \<in> set (filter is_raised (fst m))" by simp
  with f have "e = e'" by simp
  with Inl l show ?thesis by simp
next
  case (Inr v)
  with assms(1) have "filter is_raised (fst m) = []" by (simp add: unhandled_def)
  moreover from assms(2) have "Raised e \<in> set (filter is_raised (fst m))" by simp
  ultimately show ?thesis by simp
qed

lemma unhandled_for_each:
  assumes "\<And>s i. unhandled (body s i)"
  shows "unhandled (for_each body js s)"
  by (induction js arbitrary: s) (simp_all add: unhandled_ret unhandled_andthen assms)

lemmas unhandled_intros =
  unhandled_andthen unhandled_ret unhandled_call unhandled_read unhandled_zeros
  unhandled_setitem unhandled_for_each

lemma unhandled_trial: "unhandled (trial L X y svr s i)"
  unfolding trial_def trial_body_def by (intro unhandled_intros)

lemma unhandled_calculations: "unhandled (calculations L)"
  unfolding calculations_def
  by (intro unhandled_andthen unhandled_ret unhandled_call unhandled_read unhandled_zeros
      unhandled_for_each unhandled_trial unhandled_pure) simp

lemma unhandled_plot_results: "unhandled (plot_results r)"
  unfolding plot_results_def by (intro unhandled_intros)

lemma unhandled_publish_cell: "unhandled (publish_cell L)"
  unfolding publish_cell_def by (intro unhandled_intros)

lemma unhandled_notebook: "unhandled (notebook L)"
  unfolding notebook_def
  by (intro unhandled_andthen unhandled_ret unhandled_call unhandled_calculations
      unhandled_plot_results unhandled_publish_cell)

lemma unhandled_cv_predict: "unhandled (cv_predict L)"
  unfolding cv_predict_def by (intro unhandled_intros)

section \<open>Calls never overlap\<close>

lemma sequential_append:
  assumes "sequential t" and "filter is_raised t = []"
  shows "sequential (t @ t') = sequential t'"
  using assms by (induction t rule: sequential.induct) auto

lemma sequential_completed: "sequential (completed name @ t) = sequential t"
  by (simp add: completed_def)

lemma overlapping_calls_not_sequential:
  "\<not> sequential [Call a, Call b, Returned a, Returned b]"
  by simp

lemma sequential_ret: "sequential (fst (ret x))"
  by (simp add: ret_def)

lemma sequential_call: "sequential (fst (call n r))"
  by (simp add: call_def split: sum.splits)

lemma sequential_read: "sequential (fst (read n x))"
  by (simp add: read_def)

lemma sequential_zeros: "sequential (fst (zeros L n k))"
  by (simp add: zeros_def)

lemma sequential_setitem: "sequential (fst (setitem n xs i v))"
  by (simp add: setitem_def)

lemma sequential_andthen:
  assumes "unhandled m" and "sequential (fst m)" and "\<And>a. sequential (fst (f a))"
  shows "sequential (fst (andthen m f))"
proof (cases "snd m")
  case (Inl e)
  then have "andthen m f = (fst m, Inl e)"
    by (cases m) (simp add: andthen_def)
  with assms(2) show ?thesis by simp
next
  case (Inr a)
  with assms(1) have "filter is_raised (fst m) = []" by (simp add: unhandled_def)
  with assms(2,3) Inr show ?thesis
    by (simp add: fst_andthen_Inr [OF Inr] sequential_append)
qed

lemma sequential_for_each:
  assumes "\<And>s i. unhandled (body s i)" and "\<And>s i. sequential (fst (body s i))"
  shows "sequential (fst (for_each body js s))"
  by (induction js arbitrary: s) (simp_all add: sequential_ret sequential_andthen assms)

lemmas sequential_intros =
  sequential_andthen sequential_ret sequential_call sequential_read sequential_zeros
  sequential_setitem

lemma sequential_trial: "sequential (fst (trial L X y svr s i))"
  unfolding trial_def trial_body_def by (intro sequential_intros unhandled_intros)

lemma sequential_calculations: "sequential (fst (calculations L))"
  unfolding calculations_def
  by (intro sequential_andthen sequential_ret sequential_call sequential_read sequential_zeros
      sequential_for_each sequential_trial unhandled_call unhandled_read unhandled_zeros
      unhandled_for_each unhandled_trial unhandled_pure) simp_all

lemma sequential_plot_results: "sequential (fst (plot_results r))"
  unfolding plot_results_def by (intro sequential_intros unhandled_intros)

lemma sequential_publish_cell: "sequential (fst (publish_cell L))"
  unfolding publish_cell_def by (intro sequential_intros unhandled_intros)

lemma sequential_notebook: "sequential (fst (notebook L))"
  unfolding notebook_def
  by (intro sequential_andthen sequential_ret sequential_call sequential_calculations
      sequential_plot_results sequential_publish_cell unhandled_call unhandled_calculations
      unhandled_plot_results unhandled_publish_cell)

lemma sequential_cv_predict: "sequential (fst (cv_predict L))"
  unfolding cv_predict_def by (intro sequential_intros unhandled_intros)

section \<open>Facts about the stand-ins, the logs and reruns\<close>

lemma demo_calculations: "snd (calculations demo_library) = Inr demo_scores"
  by code_simp

lemma demo_one_score_per_split: "one_score_per_split demo_library"
  by (auto simp: one_score_per_split_def demo_library_def split: option.splits)

lemma count_fit_trials:
  "count_list (concat (map trial_events js)) (Call ''GridSearchCV.fit'') = length js"
  by (induction js) (simp_all add: trial_events_def body_events_def completed_def)

lemma count_score_trials:
  "count_list (concat (map trial_events js)) (Call ''cross_val_score'') = length js"
  by (induction js) (simp_all add: trial_events_def body_events_def completed_def)

lemma count_fit_calculation:
  "count_list calculation_events (Call ''GridSearchCV.fit'') = 30"
  by (simp add: calculation_events_def loop_events_def completed_def setup_events_def report_events_def count_fit_trials
      NUM_TRIALS_def)

lemma count_score_calculation:
  "count_list calculation_events (Call ''cross_val_score'') = 30"
  by (simp add: calculation_events_def loop_events_def completed_def setup_events_def report_events_def count_score_trials
      NUM_TRIALS_def)

lemma snd_trial: "snd (trial L X y svr s i) = snd (trial_body L X y svr (inner_cv i) (outer_cv i) s i)"
  unfolding trial_def by (simp add: call_Inr_eq andthen_Inr)

lemma trial_same:
  assumes "same_on_seeded L1 L2"
  shows "trial L1 X y svr s i = trial L2 X y svr s i"
  using assms unfolding same_on_seeded_def trial_def trial_body_def
  by (simp add: call_Inr_eq andthen_Inr inner_cv_def outer_cv_def)

lemma calculations_same:
  assumes "same_on_seeded L1 L2"
  shows "calculations L1 = calculations L2"
proof -
  have t: "trial L1 = trial L2"
    by (intro ext) (rule trial_same [OF assms])
  have z: "zeros L1 = zeros L2"
    using assms by (intro ext) (simp add: zeros_def same_on_seeded_def)
  have d: "ndarray_sub L1 = ndarray_sub L2"
    using assms by (intro ext) (simp add: ndarray_sub_def same_on_seeded_def)
  have rest: "load_iris L1 = load_iris L2" "ndarray_mean L1 = ndarray_mean L2"
    "ndarray_std L1 = ndarray_std L2" "format_6f L1 = format_6f L2"
    using assms by (simp_all add: same_on_seeded_def)
  show ?thesis unfolding calculations_def t z d rest ..
qed

lemma not_isl_Inr: "\<not> isl x \<Longrightarrow> x = Inr (projr x)"
  by (cases x) simp_all

lemma demo_notebook_completes: "\<not> isl (snd (notebook demo_library))"
  by code_simp

lemma demo_cv_predict_completes: "\<not> isl (snd (cv_predict demo_library))"
  by code_simp

lemma no_effect_in_trials:
  "filter external_effect (concat (map trial_events js)) = []"
  "filter network_call (concat (map trial_events js)) = []"
  by (induction js) (simp_all add: trial_events_def body_events_def completed_def)

lemma effects_of_notebook:
  "filter network_call notebook_events = [Call ''py.iplot'', Call ''pip install'']"
  "filter external_effect notebook_events =
     [Call ''print'', Call ''py.iplot'', Call ''display'', Call ''display'',
      Call ''pip install'', Call ''publisher.publish'']"
  by (simp_all add: notebook_events_def completed_def calculation_events_def loop_events_def completed_def setup_events_def
      report_events_def plot_events_def completed_def publish_events_def completed_def no_effect_in_trials)

lemma effects_of_cv_predict:
  "filter network_call cv_predict_events = [Call ''py.iplot'']"
  "filter external_effect cv_predict_events = [Call ''py.iplot'']"
  by (simp_all add: cv_predict_events_def completed_def)

lemma accesses_in_trials:
  "filter is_access (concat (map trial_events js)) = concat (map trial_writes js)"
  by (induction js) (simp_all add: trial_events_def body_events_def completed_def trial_writes_def)

lemma accesses_of_notebook:
  "filter is_access notebook_events =
     [Alloc ''non_nested_scores'', Alloc ''nested_scores''] @
     concat (map trial_writes [0..<30]) @
     [Read ''non_nested_scores'', Read ''nested_scores'', Alloc ''score_difference'',
      Read ''score_difference'', Read ''score_difference'',
      Read ''non_nested_scores'', Read ''nested_scores'', Read ''score_difference'']"
  by (simp add: notebook_events_def completed_def calculation_events_def loop_events_def completed_def setup_events_def
      report_events_def plot_events_def completed_def publish_events_def completed_def accesses_in_trials NUM_TRIALS_def)

lemma count_upt: "count_list [0..<n] k = (if k < n then 1 else 0)"
  by (induction n) auto

lemma count_writes_in_trials:
  "count_list (concat (map trial_events js)) (SetItem ''non_nested_scores'' k) = count_list js k"
  "count_list (concat (map trial_events js)) (SetItem ''nested_scores'' k) = count_list js k"
  by (induction js) (simp_all add: trial_events_def body_events_def completed_def)

lemma count_reads_in_trials:
  "count_list (concat (map trial_events js)) (Read a) = 0"
  by (induction js) (simp_all add: trial_events_def body_events_def completed_def)

lemma count_writes_of_notebook:
  "count_list notebook_events (SetItem ''non_nested_scores'' k) = (if k < 30 then 1 else 0)"
  "count_list notebook_events (SetItem ''nested_scores'' k) = (if k < 30 then 1 else 0)"
  by (simp_all add: notebook_events_def completed_def calculation_events_def loop_events_def completed_def setup_events_def
      report_events_def plot_events_def completed_def publish_events_def completed_def count_writes_in_trials count_upt
      NUM_TRIALS_def)

lemma count_reads_of_notebook:
  "count_list notebook_events (Read ''non_nested_scores'') = 2"
  "count_list notebook_events (Read ''nested_scores'') = 2"
  "count_list notebook_events (Read ''score_difference'') = 3"
  by (simp_all add: notebook_events_def completed_def calculation_events_def loop_events_def completed_def setup_events_def
      report_events_def plot_events_def completed_def publish_events_def completed_def count_reads_in_trials)

section \<open>What the notebook fixes about the splitters\<close>

text \<open>
  The two splitters of trial \<open>i\<close> are constructed with the same arguments. In the body of
  a trial the splitter bound to \<^verbatim>\<open>inner_cv\<close> reaches only the
  \<^verbatim>\<open>GridSearchCV\<close> constructor and the one bound to \<^verbatim>\<open>outer_cv\<close> only
  the \<^verbatim>\<open>cv\<close> argument of \<^verbatim>\<open>cross_val_score\<close>. What the two library
  calls do with them (how they split, which loops they run, whether two runs agree) is the
  library's and is not decided here; \<open>calculations_same\<close> above only says that the
  notebook adds nothing of its own to it, since every splitter it constructs is seeded.
\<close>

lemma splitters_of_trial:
  "inner_cv i = outer_cv i \<and> n_splits (outer_cv i) = 4 \<and> shuffle (outer_cv i) \<and>
   random_state (outer_cv i) = Some (int i)"
  by (simp add: inner_cv_def outer_cv_def)

lemma trial_body_wiring:
  assumes "snd (trial_body L X y svr icv ocv s i) = Inr s'"
  shows "(\<exists>clf fitted fold_scores.
            clf = \<lparr>estimator = svr, param_grid = p_grid, cv = icv\<rparr> \<and>
            gs_fit L clf X y = Inr fitted \<and>
            fst s' = (fst s)[i := best_score L fitted] \<and>
            cross_val_score L clf fitted X y ocv = Inr fold_scores \<and>
            snd s' = (snd s)[i := ndarray_mean L fold_scores]) \<and>
         (\<forall>ocv' s''. snd (trial_body L X y svr icv ocv' s i) = Inr s'' \<longrightarrow> fst s'' = fst s') \<and>
         fst (trial_body L X y svr icv ocv s i) =
           body_events i \<and>
         snd (trial L X y svr s i) =
           snd (trial_body L X y svr (inner_cv i) (outer_cv i) s i)"
proof -
  from assms obtain fitted fold_scores where
    fit: "gs_fit L \<lparr>estimator = svr, param_grid = p_grid, cv = icv\<rparr> X y = Inr fitted" and
    cvs: "cross_val_score L \<lparr>estimator = svr, param_grid = p_grid, cv = icv\<rparr> fitted X y ocv
            = Inr fold_scores" and
    s': "s' = ((fst s)[i := best_score L fitted], (snd s)[i := ndarray_mean L fold_scores])"
    unfolding trial_body_Inr by blast
  have a: "\<exists>clf fitted fold_scores.
            clf = \<lparr>estimator = svr, param_grid = p_grid, cv = icv\<rparr> \<and>
            gs_fit L clf X y = Inr fitted \<and>
            fst s' = (fst s)[i := best_score L fitted] \<and>
            cross_val_score L clf fitted X y ocv = Inr fold_scores \<and>
            snd s' = (snd s)[i := ndarray_mean L fold_scores]"
    using fit cvs s' by simp
  have b: "\<forall>ocv' s''. snd (trial_body L X y svr icv ocv' s i) = Inr s'' \<longrightarrow> fst s'' = fst s'"
    using fit s' unfolding trial_body_Inr by auto
  have c: "fst (trial_body L X y svr icv ocv s i) =
           body_events i"
    by (rule trial_body_events [OF assms])
  have d: "snd (trial L X y svr s i) =
           snd (trial_body L X y svr (inner_cv i) (outer_cv i) s i)"
    by (rule snd_trial)
  show ?thesis using a b c d by (intro conjI)
qed

lemma demo_rerun_same_on_seeded: "same_on_seeded demo_library rerun_library"
  by (simp add: same_on_seeded_def demo_library_def rerun_library_def)

section \<open>The parameter grid\<close>

lemma p_grid_points:
  "grid_points p_grid =
     [[(''C'', PyInt 1), (''gamma'', PyFloat ''.01'')], [(''C'', PyInt 1), (''gamma'', PyFloat ''.1'')],
      [(''C'', PyInt 10), (''gamma'', PyFloat ''.01'')], [(''C'', PyInt 10), (''gamma'', PyFloat ''.1'')],
      [(''C'', PyInt 100), (''gamma'', PyFloat ''.01'')], [(''C'', PyInt 100), (''gamma'', PyFloat ''.1'')]]"
  by (simp add: p_grid_def)

lemma p_grid_six_points: "length (grid_points p_grid) = 6"
  by (simp add: p_grid_points)

section \<open>The claims\<close>

subsection \<open>C1: thirty trials, each a grid search followed by its cross-validated scoring\<close>

text \<open>
  C1. The calculation of the notebook is a loop of exactly 30 trials
  (\<^verbatim>\<open>NUM_TRIALS = 30\<close>). A run of the calculation cell that completes logs the set-up,
  the call of \<^verbatim>\<open>range\<close> in the loop header, then the events of trials 0 to 29 in
  order, then the report, and nothing else; it
  calls \<^verbatim>\<open>GridSearchCV.fit\<close> and \<^verbatim>\<open>cross_val_score\<close> 30 times each. In trial
  \<open>i\<close> the searcher \<^verbatim>\<open>GridSearchCV(svr, p_grid, cv=inner_cv)\<close> is fitted on the iris
  data, its \<^verbatim>\<open>best_score_\<close> goes to \<^verbatim>\<open>non_nested_scores[i]\<close>, and
  \<^verbatim>\<open>cross_val_score\<close> is applied to that same fitted searcher with \<^verbatim>\<open>outer_cv\<close>,
  the mean of what it returns going to \<^verbatim>\<open>nested_scores[i]\<close>. Beyond these library
  calls the cell only stores the results, subtracts the two arrays elementwise and prints
  the mean and standard deviation of the difference.
\<close>

theorem thirty_trials_of_search_then_scoring:
  assumes "snd (calculations L) = Inr r"
  shows "NUM_TRIALS = 30 \<and>
         fst (calculations L) =
           setup_events @ completed ''range'' @ concat (map trial_events [0..<30]) @
           report_events \<and>
         count_list (fst (calculations L)) (Call ''GridSearchCV.fit'') = 30 \<and>
         count_list (fst (calculations L)) (Call ''cross_val_score'') = 30 \<and>
         (\<forall>i<30. \<exists>X y clf fitted fold_scores.
            load_iris L = Inr (X, y) \<and>
            clf = \<lparr>estimator = \<lparr>kernel = ''rbf''\<rparr>, param_grid = p_grid, cv = inner_cv i\<rparr> \<and>
            gs_fit L clf X y = Inr fitted \<and>
            non_nested_scores r ! i = best_score L fitted \<and>
            cross_val_score L clf fitted X y (outer_cv i) = Inr fold_scores \<and>
            nested_scores r ! i = ndarray_mean L fold_scores) \<and>
         score_difference r = map2 (float_sub L) (non_nested_scores r) (nested_scores r)"
proof -
  from calculations_Inr [OF assms] obtain X y where
    iris: "load_iris L = Inr (X, y)" and
    out: "\<forall>i<30. trial_outcome L X y \<lparr>kernel = ''rbf''\<rparr> i
            (non_nested_scores r ! i) (nested_scores r ! i)" and
    sd: "score_difference r = map2 (float_sub L) (non_nested_scores r) (nested_scores r)" and
    ev: "fst (calculations L) = calculation_events"
    unfolding NUM_TRIALS_def by blast
  have n: "NUM_TRIALS = 30" by (simp add: NUM_TRIALS_def)
  have ev': "fst (calculations L) =
      setup_events @ completed ''range'' @ concat (map trial_events [0..<30]) @ report_events"
    using ev by (simp add: calculation_events_def loop_events_def NUM_TRIALS_def)
  have c1: "count_list (fst (calculations L)) (Call ''GridSearchCV.fit'') = 30"
    using ev count_fit_calculation by simp
  have c2: "count_list (fst (calculations L)) (Call ''cross_val_score'') = 30"
    using ev count_score_calculation by simp
  have each: "\<exists>X y clf fitted fold_scores.
            load_iris L = Inr (X, y) \<and>
            clf = \<lparr>estimator = \<lparr>kernel = ''rbf''\<rparr>, param_grid = p_grid, cv = inner_cv i\<rparr> \<and>
            gs_fit L clf X y = Inr fitted \<and>
            non_nested_scores r ! i = best_score L fitted \<and>
            cross_val_score L clf fitted X y (outer_cv i) = Inr fold_scores \<and>
            nested_scores r ! i = ndarray_mean L fold_scores"
    if i: "i < 30" for i
  proof -
    from out i obtain fitted fold_scores where
      fit: "gs_fit L \<lparr>estimator = \<lparr>kernel = ''rbf''\<rparr>, param_grid = p_grid, cv = inner_cv i\<rparr> X y
              = Inr fitted" and
      nn: "non_nested_scores r ! i = best_score L fitted" and
      cvs: "cross_val_score L \<lparr>estimator = \<lparr>kernel = ''rbf''\<rparr>, param_grid = p_grid,
              cv = inner_cv i\<rparr> fitted X y (outer_cv i) = Inr fold_scores" and
      ns: "nested_scores r ! i = ndarray_mean L fold_scores"
      unfolding trial_outcome_def by blast
    show ?thesis using iris fit nn cvs ns by blast
  qed
  then have all: "\<forall>i<30. \<exists>X y clf fitted fold_scores.
            load_iris L = Inr (X, y) \<and>
            clf = \<lparr>estimator = \<lparr>kernel = ''rbf''\<rparr>, param_grid = p_grid, cv = inner_cv i\<rparr> \<and>
            gs_fit L clf X y = Inr fitted \<and>
            non_nested_scores r ! i = best_score L fitted \<and>
            cross_val_score L clf fitted X y (outer_cv i) = Inr fold_scores \<and>
            nested_scores r ! i = ndarray_mean L fold_scores"
    by (intro allI impI)
  show ?thesis using n ev' c1 c2 all sd by (intro conjI)
qed

theorem thirty_trials_of_search_then_scoring_witness:
  "snd (calculations demo_library) = Inr demo_scores \<and>
   count_list (fst (calculations demo_library)) (Call ''GridSearchCV.fit'') = 30 \<and>
   count_list (fst (calculations demo_library)) (Call ''cross_val_score'') = 30 \<and>
   score_difference demo_scores =
     map2 (float_sub demo_library) (non_nested_scores demo_scores) (nested_scores demo_scores)"
proof -
  have h: "snd (calculations demo_library) = Inr demo_scores"
    by (rule demo_calculations)
  note t = thirty_trials_of_search_then_scoring [OF h]
  from t have fits: "count_list (fst (calculations demo_library)) (Call ''GridSearchCV.fit'') = 30"
    by (elim conjE)
  from t have scorings:
    "count_list (fst (calculations demo_library)) (Call ''cross_val_score'') = 30"
    by (elim conjE)
  from t have difference: "score_difference demo_scores =
     map2 (float_sub demo_library) (non_nested_scores demo_scores) (nested_scores demo_scores)"
    by (elim conjE)
  show ?thesis using h fits scorings difference by (intro conjI)
qed

subsection \<open>C5: the order of a run\<close>

text \<open>
  C5 claims that each tutorial loads the data set, fits and evaluates in a loop, renders a
  chart and exits. The notebook does not exit after the chart: on \<open>demo_library\<close> the run
  completes, and the return of \<^verbatim>\<open>py.iplot\<close> is followed by the six calls of the
  last cell. The page has no loop: it calls \<^verbatim>\<open>cross_val_predict\<close> once.
\<close>

theorem notebook_continues_after_the_chart:
  "\<not> isl (snd (notebook demo_library)) \<and>
   after_return ''py.iplot'' (fst (notebook demo_library)) =
     [Call ''HTML'', Returned ''HTML'', Call ''display'', Returned ''display'',
      Call ''HTML'', Returned ''HTML'', Call ''display'', Returned ''display'',
      Call ''pip install'', Returned ''pip install'',
      Call ''publisher.publish'', Returned ''publisher.publish''] \<and>
   count_list (fst (cv_predict demo_library)) (Call ''cross_val_predict'') = 1"
  by code_simp

text \<open>
  C5, amended. Execution of each tutorial is a linear, single-threaded sequence: in every
  run, completed or ended by an exception, no call begins while another is in progress.
  A run that completes performs its steps in one fixed order. In the notebook:
  \<^verbatim>\<open>load_iris\<close> and the set-up, the loop of 30 trials in order (fit and evaluate),
  the report (difference, mean, standard deviation, print), the construction of the
  figure, one \<^verbatim>\<open>py.iplot\<close>, and then the last cell (two style sheets displayed,
  \<^verbatim>\<open>pip install\<close>, \<^verbatim>\<open>publisher.publish\<close>) before it exits. In the page:
  the estimator is constructed, \<^verbatim>\<open>load_boston\<close>, one \<^verbatim>\<open>cross_val_predict\<close>
  (no loop), the construction of the figure, one \<^verbatim>\<open>py.iplot\<close>, and it exits. No
  step is reordered, repeated outside the loop, or run concurrently.
\<close>

theorem completed_runs_follow_the_cells:
  "sequential (fst (notebook L)) \<and> sequential (fst (cv_predict L)) \<and>
   (snd (notebook L) = Inr v \<longrightarrow>
      fst (notebook L) =
        setup_events @ completed ''range'' @ concat (map trial_events [0..<30]) @
        report_events @ plot_events @ completed ''py.iplot'' @ publish_events) \<and>
   (snd (cv_predict L) = Inr w \<longrightarrow> fst (cv_predict L) = cv_predict_events)"
proof -
  have "fst (notebook L) =
        setup_events @ completed ''range'' @ concat (map trial_events [0..<30]) @
        report_events @ plot_events @ completed ''py.iplot'' @ publish_events"
    if "snd (notebook L) = Inr v"
    using notebook_Inr [OF that]
    by (simp add: notebook_events_def calculation_events_def loop_events_def NUM_TRIALS_def)
  moreover have "fst (cv_predict L) = cv_predict_events" if "snd (cv_predict L) = Inr w"
    using that by (rule cv_predict_Inr)
  ultimately show ?thesis
    using sequential_notebook [of L] sequential_cv_predict [of L] by (intro conjI impI)
qed

theorem completed_runs_follow_the_cells_witness:
  "\<not> isl (snd (notebook demo_library)) \<and>
   fst (notebook demo_library) =
     setup_events @ completed ''range'' @ concat (map trial_events [0..<30]) @
     report_events @ plot_events @ completed ''py.iplot'' @ publish_events \<and>
   \<not> isl (snd (cv_predict demo_library)) \<and>
   fst (cv_predict demo_library) = cv_predict_events \<and>
   sequential (fst (notebook failing_library))"
proof -
  have n: "snd (notebook demo_library) = Inr (projr (snd (notebook demo_library)))"
    by (rule not_isl_Inr [OF demo_notebook_completes])
  have p: "snd (cv_predict demo_library) = Inr (projr (snd (cv_predict demo_library)))"
    by (rule not_isl_Inr [OF demo_cv_predict_completes])
  note t = completed_runs_follow_the_cells
    [of demo_library "projr (snd (notebook demo_library))" "projr (snd (cv_predict demo_library))"]
  from t have "snd (notebook demo_library) = Inr (projr (snd (notebook demo_library))) \<longrightarrow>
      fst (notebook demo_library) =
        setup_events @ completed ''range'' @ concat (map trial_events [0..<30]) @
        report_events @ plot_events @ completed ''py.iplot'' @ publish_events"
    by (elim conjE)
  from this n have log: "fst (notebook demo_library) =
        setup_events @ completed ''range'' @ concat (map trial_events [0..<30]) @
        report_events @ plot_events @ completed ''py.iplot'' @ publish_events"
    by (rule mp)
  from t have "snd (cv_predict demo_library) = Inr (projr (snd (cv_predict demo_library))) \<longrightarrow>
      fst (cv_predict demo_library) = cv_predict_events"
    by (elim conjE)
  from this p have page: "fst (cv_predict demo_library) = cv_predict_events"
    by (rule mp)
  have failing: "sequential (fst (notebook failing_library))"
    by (rule conjunct1 [OF completed_runs_follow_the_cells])
  show ?thesis
    using demo_notebook_completes log demo_cv_predict_completes page failing by (intro conjI)
qed

subsection \<open>C6: effects outside the process\<close>

text \<open>
  C6 claims that the one plotting call is the only network call and the only operation
  with an external effect. In the notebook two calls go to the network, and six calls have
  an effect outside the process.
\<close>

theorem notebook_has_effects_besides_the_chart:
  "filter network_call (fst (notebook demo_library)) =
     [Call ''py.iplot'', Call ''pip install''] \<and>
   filter external_effect (fst (notebook demo_library)) =
     [Call ''print'', Call ''py.iplot'', Call ''display'', Call ''display'',
      Call ''pip install'', Call ''publisher.publish'']"
  by code_simp

text \<open>
  C6, amended. A run that completes calls the plotting service exactly once
  (\<^verbatim>\<open>py.iplot\<close>). In the page that is the only call with an external effect. In
  the notebook the calculation cell also prints one line, and after \<^verbatim>\<open>py.iplot\<close>
  the last cell displays two style sheets, runs \<^verbatim>\<open>pip install\<close> from a git URL (a
  second network call) and calls \<^verbatim>\<open>publisher.publish\<close>; there is no other.
\<close>

theorem external_effects_of_completed_runs:
  "(snd (notebook L) = Inr v \<longrightarrow>
      filter network_call (fst (notebook L)) = [Call ''py.iplot'', Call ''pip install''] \<and>
      filter external_effect (fst (notebook L)) =
        [Call ''print'', Call ''py.iplot'', Call ''display'', Call ''display'',
         Call ''pip install'', Call ''publisher.publish'']) \<and>
   (snd (cv_predict L) = Inr w \<longrightarrow>
      filter network_call (fst (cv_predict L)) = [Call ''py.iplot''] \<and>
      filter external_effect (fst (cv_predict L)) = [Call ''py.iplot''])"
  using notebook_Inr [of L v] cv_predict_Inr [of L w]
  by (auto simp: effects_of_notebook effects_of_cv_predict)

theorem external_effects_of_completed_runs_witness:
  "\<not> isl (snd (notebook demo_library)) \<and>
   filter network_call (fst (notebook demo_library)) = [Call ''py.iplot'', Call ''pip install''] \<and>
   \<not> isl (snd (cv_predict demo_library)) \<and>
   filter external_effect (fst (cv_predict demo_library)) = [Call ''py.iplot'']"
proof -
  have n: "snd (notebook demo_library) = Inr (projr (snd (notebook demo_library)))"
    by (rule not_isl_Inr [OF demo_notebook_completes])
  have p: "snd (cv_predict demo_library) = Inr (projr (snd (cv_predict demo_library)))"
    by (rule not_isl_Inr [OF demo_cv_predict_completes])
  from external_effects_of_completed_runs
    [of demo_library "projr (snd (notebook demo_library))" "projr (snd (cv_predict demo_library))"]
    n p demo_notebook_completes demo_cv_predict_completes
  show ?thesis by blast
qed

subsection \<open>C7: writes and reads of the score arrays\<close>

text \<open>
  C7 claims that each score array is read exactly once after it is produced. In the
  notebook \<^verbatim>\<open>non_nested_scores\<close> and \<^verbatim>\<open>nested_scores\<close> are each read twice
  and \<^verbatim>\<open>score_difference\<close> three times.
\<close>

theorem score_arrays_are_read_more_than_once:
  "count_list (fst (notebook demo_library)) (Read ''non_nested_scores'') = 2 \<and>
   count_list (fst (notebook demo_library)) (Read ''nested_scores'') = 2 \<and>
   count_list (fst (notebook demo_library)) (Read ''score_difference'') = 3"
  by code_simp

text \<open>
  C7, amended. In a run of the notebook that completes, each array is created once; entry
  \<open>i\<close> of \<^verbatim>\<open>non_nested_scores\<close> and of \<^verbatim>\<open>nested_scores\<close> is written exactly
  once, in trial \<open>i\<close>, for \<open>i\<close> from 0 to 29, and no other entry is written; all reads come
  after all writes. \<^verbatim>\<open>non_nested_scores\<close> and \<^verbatim>\<open>nested_scores\<close> are each
  read twice (by the subtraction and by their \<^verbatim>\<open>go.Scatter\<close> trace), and
  \<^verbatim>\<open>score_difference\<close> three times (mean, standard deviation, \<^verbatim>\<open>go.Bar\<close>).
\<close>

theorem score_arrays_written_once_read_by_difference_and_plot:
  assumes "snd (notebook L) = Inr v"
  shows "filter is_access (fst (notebook L)) =
           [Alloc ''non_nested_scores'', Alloc ''nested_scores''] @
           concat (map trial_writes [0..<30]) @
           [Read ''non_nested_scores'', Read ''nested_scores'', Alloc ''score_difference'',
            Read ''score_difference'', Read ''score_difference'',
            Read ''non_nested_scores'', Read ''nested_scores'', Read ''score_difference''] \<and>
         (\<forall>i<30. count_list (fst (notebook L)) (SetItem ''non_nested_scores'' i) = 1 \<and>
                 count_list (fst (notebook L)) (SetItem ''nested_scores'' i) = 1) \<and>
         (\<forall>i\<ge>30. SetItem ''non_nested_scores'' i \<notin> set (fst (notebook L)) \<and>
                 SetItem ''nested_scores'' i \<notin> set (fst (notebook L))) \<and>
         count_list (fst (notebook L)) (Read ''non_nested_scores'') = 2 \<and>
         count_list (fst (notebook L)) (Read ''nested_scores'') = 2 \<and>
         count_list (fst (notebook L)) (Read ''score_difference'') = 3"
proof -
  have ev: "fst (notebook L) = notebook_events"
    using notebook_Inr [OF assms] by simp
  have none: "SetItem ''non_nested_scores'' i \<notin> set notebook_events \<and>
      SetItem ''nested_scores'' i \<notin> set notebook_events" if "i \<ge> 30" for i
    using that count_writes_of_notebook [of i] by (simp add: count_list_0_iff)
  show ?thesis
    unfolding ev using none
    by (simp add: accesses_of_notebook count_writes_of_notebook count_reads_of_notebook)
qed

theorem score_arrays_written_once_read_by_difference_and_plot_witness:
  "\<not> isl (snd (notebook demo_library)) \<and>
   count_list (fst (notebook demo_library)) (SetItem ''nested_scores'' 7) = 1 \<and>
   SetItem ''nested_scores'' 30 \<notin> set (fst (notebook demo_library)) \<and>
   count_list (fst (notebook demo_library)) (Read ''nested_scores'') = 2"
proof -
  have n: "snd (notebook demo_library) = Inr (projr (snd (notebook demo_library)))"
    by (rule not_isl_Inr [OF demo_notebook_completes])
  have "(7::nat) < 30" "(30::nat) \<ge> 30" by simp_all
  with score_arrays_written_once_read_by_difference_and_plot [OF n] demo_notebook_completes
  show ?thesis by blast
qed

subsection \<open>C8: no error handling\<close>

text \<open>
  C8. The scripts handle no error themselves: whatever exception a library call raises
  ends the run, as its result, with nothing executed after it. This holds for the
  notebook and for the page, for every library: a run ends with exception \<open>e\<close> exactly
  when one exception was raised, \<open>e\<close>, as the last event; a run that ends with a value
  raised nothing. So an exception \<open>e\<close> raised anywhere in a run is the result of the run
  and the last thing in its log.
\<close>

theorem library_exceptions_propagate:
  "unhandled (notebook L) \<and> unhandled (cv_predict L) \<and>
   (Raised e \<in> set (fst (notebook L)) \<longrightarrow>
      snd (notebook L) = Inl e \<and> last (fst (notebook L)) = Raised e) \<and>
   (Raised e \<in> set (fst (cv_predict L)) \<longrightarrow>
      snd (cv_predict L) = Inl e \<and> last (fst (cv_predict L)) = Raised e)"
proof -
  have n: "Raised e \<in> set (fst (notebook L)) \<longrightarrow>
      snd (notebook L) = Inl e \<and> last (fst (notebook L)) = Raised e"
    using unhandled_Raised [OF unhandled_notebook, of e L] by blast
  have p: "Raised e \<in> set (fst (cv_predict L)) \<longrightarrow>
      snd (cv_predict L) = Inl e \<and> last (fst (cv_predict L)) = Raised e"
    using unhandled_Raised [OF unhandled_cv_predict, of e L] by blast
  show ?thesis using unhandled_notebook [of L] unhandled_cv_predict [of L] n p
    by (intro conjI)
qed

theorem library_exceptions_propagate_witness:
  "gs_fit failing_library
     \<lparr>estimator = \<lparr>kernel = ''rbf''\<rparr>, param_grid = p_grid, cv = inner_cv 2\<rparr> 150 3
     = Inl (PyExc ''ValueError'') \<and>
   Raised (PyExc ''ValueError'') \<in> set (fst (notebook failing_library)) \<and>
   snd (notebook failing_library) = Inl (PyExc ''ValueError'') \<and>
   last (fst (notebook failing_library)) = Raised (PyExc ''ValueError'')"
proof -
  have f: "gs_fit failing_library
     \<lparr>estimator = \<lparr>kernel = ''rbf''\<rparr>, param_grid = p_grid, cv = inner_cv 2\<rparr> 150 3
     = Inl (PyExc ''ValueError'')"
    by (simp add: failing_library_def inner_cv_def)
  have r: "Raised (PyExc ''ValueError'') \<in> set (fst (notebook failing_library))"
    by code_simp
  from library_exceptions_propagate [of failing_library "PyExc ''ValueError''"]
  have "Raised (PyExc ''ValueError'') \<in> set (fst (notebook failing_library)) \<longrightarrow>
        snd (notebook failing_library) = Inl (PyExc ''ValueError'') \<and>
        last (fst (notebook failing_library)) = Raised (PyExc ''ValueError'')"
    by (elim conjE)
  from this r
  have "snd (notebook failing_library) = Inl (PyExc ''ValueError'') \<and>
        last (fst (notebook failing_library)) = Raised (PyExc ''ValueError'')"
    by (rule mp)
  with f r show ?thesis by (intro conjI) simp_all
qed

subsection \<open>C9: nested scores are means, differences are differences\<close>

text \<open>
  C9. When the calculation cell completes, the three arrays have length 30, and for every
  trial \<open>i\<close> below 30: \<^verbatim>\<open>nested_scores[i]\<close> is numpy's mean of the array that
  \<^verbatim>\<open>cross_val_score\<close> returned for the fitted searcher of trial \<open>i\<close> and the outer
  splitter, which has \<^verbatim>\<open>n_splits = 4\<close> (so 4 scores, one per split, for a library
  that returns one score per split), and \<^verbatim>\<open>score_difference[i]\<close> is
  \<^verbatim>\<open>non_nested_scores[i]\<close> minus \<^verbatim>\<open>nested_scores[i]\<close>.
\<close>

theorem nested_scores_are_fold_means:
  assumes "snd (calculations L) = Inr r"
  shows "length (non_nested_scores r) = 30 \<and> length (nested_scores r) = 30 \<and>
         length (score_difference r) = 30 \<and>
         (\<forall>i<30. \<exists>X y clf fitted fold_scores.
            load_iris L = Inr (X, y) \<and>
            clf = \<lparr>estimator = \<lparr>kernel = ''rbf''\<rparr>, param_grid = p_grid, cv = inner_cv i\<rparr> \<and>
            gs_fit L clf X y = Inr fitted \<and>
            cross_val_score L clf fitted X y (outer_cv i) = Inr fold_scores \<and>
            n_splits (outer_cv i) = 4 \<and>
            (one_score_per_split L \<longrightarrow> length fold_scores = 4) \<and>
            nested_scores r ! i = ndarray_mean L fold_scores \<and>
            score_difference r ! i =
              float_sub L (non_nested_scores r ! i) (nested_scores r ! i))"
proof -
  from calculations_Inr [OF assms] obtain X y where
    iris: "load_iris L = Inr (X, y)" and
    len: "length (non_nested_scores r) = 30" "length (nested_scores r) = 30" and
    out: "\<forall>i<30. trial_outcome L X y \<lparr>kernel = ''rbf''\<rparr> i
            (non_nested_scores r ! i) (nested_scores r ! i)" and
    sd: "score_difference r = map2 (float_sub L) (non_nested_scores r) (nested_scores r)"
    unfolding NUM_TRIALS_def by blast
  have len_sd: "length (score_difference r) = 30"
    using sd len by simp
  have "\<exists>X y clf fitted fold_scores.
            load_iris L = Inr (X, y) \<and>
            clf = \<lparr>estimator = \<lparr>kernel = ''rbf''\<rparr>, param_grid = p_grid, cv = inner_cv i\<rparr> \<and>
            gs_fit L clf X y = Inr fitted \<and>
            cross_val_score L clf fitted X y (outer_cv i) = Inr fold_scores \<and>
            n_splits (outer_cv i) = 4 \<and>
            (one_score_per_split L \<longrightarrow> length fold_scores = 4) \<and>
            nested_scores r ! i = ndarray_mean L fold_scores \<and>
            score_difference r ! i =
              float_sub L (non_nested_scores r ! i) (nested_scores r ! i)"
    if i: "i < 30" for i
  proof -
    from out i obtain fitted fold_scores where
      fit: "gs_fit L \<lparr>estimator = \<lparr>kernel = ''rbf''\<rparr>, param_grid = p_grid, cv = inner_cv i\<rparr> X y
              = Inr fitted" and
      cvs: "cross_val_score L \<lparr>estimator = \<lparr>kernel = ''rbf''\<rparr>, param_grid = p_grid,
              cv = inner_cv i\<rparr> fitted X y (outer_cv i) = Inr fold_scores" and
      ns: "nested_scores r ! i = ndarray_mean L fold_scores"
      unfolding trial_outcome_def by blast
    have four: "n_splits (outer_cv i) = 4" by (simp add: outer_cv_def)
    have contract: "one_score_per_split L \<longrightarrow> length fold_scores = 4"
      using cvs four unfolding one_score_per_split_def by metis
    have diff: "score_difference r ! i =
        float_sub L (non_nested_scores r ! i) (nested_scores r ! i)"
      using sd len i by simp
    show ?thesis using iris fit cvs four contract ns diff by blast
  qed
  then show ?thesis using len len_sd by blast
qed

theorem nested_scores_are_fold_means_witness:
  "snd (calculations demo_library) = Inr demo_scores \<and> one_score_per_split demo_library \<and>
   length (nested_scores demo_scores) = 30 \<and>
   (\<exists>fold_scores. length fold_scores = 4 \<and>
      nested_scores demo_scores ! 7 = ndarray_mean demo_library fold_scores \<and>
      score_difference demo_scores ! 7 =
        float_sub demo_library (non_nested_scores demo_scores ! 7) (nested_scores demo_scores ! 7))"
proof -
  have h: "snd (calculations demo_library) = Inr demo_scores"
    by (rule demo_calculations)
  have seven: "(7::nat) < 30" by simp
  from nested_scores_are_fold_means [OF h] seven demo_one_score_per_split
  show ?thesis using h by blast
qed

end
